theory Spec2Isabelle
  imports Main "HOL-Library.Word"
begin

unbundle bit_operations_syntax

section \<open>Bytes, C integer types and the allocator\<close>

text \<open>
  The two extension modules (\<^verbatim>\<open>apps/chunker\<close> and \<^verbatim>\<open>apps/encryptor\<close>) work on byte buffers
  that they hand to zlib and to libsodium. A buffer together with its length is a list of
  bytes. \<^verbatim>\<open>size_t\<close> is 64 bits wide and zlib's \<^verbatim>\<open>uInt\<close> is 32 bits wide; the casts
  \<^verbatim>\<open>(uInt)input_size\<close> and \<^verbatim>\<open>(uInt)(*output_size)\<close> of \<^verbatim>\<open>compression.c\<close> truncate.

  \<^verbatim>\<open>malloc\<close> is a parameter of every function that allocates: \<open>malloc n\<close> is true when
  the request for \<open>n\<close> bytes returns a pointer and false when it returns \<^verbatim>\<open>NULL\<close>.
  This covers \<^verbatim>\<open>malloc(0)\<close>, whose result the C standard leaves to the implementation.
\<close>

type_synonym byte = "8 word"
type_synonym bytes = "byte list"

definition size_t :: "nat \<Rightarrow> nat" where
  "size_t n = n mod 2 ^ 64"

definition uInt :: "nat \<Rightarrow> nat" where
  "uInt n = n mod 2 ^ 32"

section \<open>The interface of zlib\<close>

text \<open>
  zlib is not part of the repository. Its calls are the fields of a record, so every
  statement about the chunker holds for whatever zlib the module is linked with:
  \<^item> \<open>deflateInit Z level\<close> is the return code of \<^verbatim>\<open>deflateInit(&stream, level)\<close>;
  \<^item> \<open>deflate Z level input avail_out\<close> is the single call
    \<^verbatim>\<open>deflate(&stream, Z_FINISH)\<close> on a stream initialised at \<open>level\<close> with \<open>input\<close> as
    \<^verbatim>\<open>next_in[0..avail_in)\<close> and \<open>avail_out\<close> bytes of room: its return code and the bytes
    it wrote to \<^verbatim>\<open>next_out\<close> (so \<^verbatim>\<open>total_out\<close> is their number);
  \<^item> \<open>inflateInit Z\<close> and \<open>inflate Z input avail_out\<close> are the same for
    \<^verbatim>\<open>inflateInit(&stream)\<close> and \<^verbatim>\<open>inflate(&stream, Z_FINISH)\<close>.
\<close>

abbreviation Z_OK :: int where "Z_OK \<equiv> 0"
abbreviation Z_STREAM_END :: int where "Z_STREAM_END \<equiv> 1"
abbreviation Z_STREAM_ERROR :: int where "Z_STREAM_ERROR \<equiv> - 2"
abbreviation Z_DATA_ERROR :: int where "Z_DATA_ERROR \<equiv> - 3"
abbreviation Z_BUF_ERROR :: int where "Z_BUF_ERROR \<equiv> - 5"

record zlib =
  deflateInit :: "int \<Rightarrow> int"
  deflate :: "int \<Rightarrow> bytes \<Rightarrow> nat \<Rightarrow> int \<times> bytes"
  inflateInit :: int
  inflate :: "bytes \<Rightarrow> nat \<Rightarrow> int \<times> bytes"

section \<open>compression.c\<close>

text \<open>
  \<^verbatim>\<open>compress_data(input, input_size, output, output_size, compression_level)\<close>. The model
  takes the input buffer with its size and the value of \<^verbatim>\<open>*output_size\<close> on entry, and
  returns the function's return value, the bytes written to \<^verbatim>\<open>output\<close> and the value of
  \<^verbatim>\<open>*output_size\<close> on exit. When \<^verbatim>\<open>deflateInit\<close> fails nothing is written and
  \<^verbatim>\<open>*output_size\<close> keeps its value. The last line of the source turns
  \<^verbatim>\<open>Z_STREAM_END\<close> into \<^verbatim>\<open>Z_OK\<close> and passes every other code on as it is.
\<close>

definition compress_data :: "zlib \<Rightarrow> bytes \<Rightarrow> nat \<Rightarrow> int \<Rightarrow> int \<times> bytes \<times> nat" where
  "compress_data Z input output_size compression_level =
     (let result = deflateInit Z compression_level in
      if result \<noteq> Z_OK then (result, [], output_size)
      else
        (case deflate Z compression_level (take (uInt (length input)) input) (uInt output_size) of
           (result, out) \<Rightarrow>
             (if result = Z_STREAM_END then Z_OK else result, out, length out)))"

definition decompress_data :: "zlib \<Rightarrow> bytes \<Rightarrow> nat \<Rightarrow> int \<times> bytes \<times> nat" where
  "decompress_data Z input output_size =
     (let result = inflateInit Z in
      if result \<noteq> Z_OK then (result, [], output_size)
      else
        (case inflate Z (take (uInt (length input)) input) (uInt output_size) of
           (result, out) \<Rightarrow>
             (if result = Z_STREAM_END then Z_OK else result, out, length out)))"

section \<open>chunker.c\<close>

text \<open>
  A Python exception is a value: the exception type with its message. The dictionary that
  \<^verbatim>\<open>Chunker.chunk\<close> returns is a map from its string keys to Python objects.
  \<^verbatim>\<open>PyArg_ParseTuple\<close> with format \<^verbatim>\<open>y*\<close> accepts exactly the bytes-like arguments, which
  is the type \<open>bytes\<close> of the model; allocation failures inside the Python runtime
  (\<^verbatim>\<open>PyDict_New\<close>, \<^verbatim>\<open>PyBytes_FromStringAndSize\<close>) are outside the model.
\<close>

datatype exc = ValueError string | RuntimeError string | MemoryError string | OverflowError string

datatype pyobj = PyBytes bytes | PyUnicode string

definition PyBytes_FromStringAndSize :: "bytes \<Rightarrow> nat \<Rightarrow> bytes" where
  "PyBytes_FromStringAndSize buf n = take n buf"

definition MAX_CHUNK_SIZE :: nat where
  "MAX_CHUNK_SIZE = 100 * 1024 * 1024"

record ChunkerObject =
  chunk_size :: nat
  compression_level :: int
  zstream_initialized :: int

definition Chunker_new :: ChunkerObject where
  "Chunker_new = \<lparr>chunk_size = 8 * 1024 * 1024, compression_level = 6, zstream_initialized = 0\<rparr>"

text \<open>
  \<^verbatim>\<open>Chunker_init\<close> parses its optional arguments \<^verbatim>\<open>chunk_size\<close> and
  \<^verbatim>\<open>compression_level\<close> with the format \<^verbatim>\<open>"|ki"\<close>; both arrive as Python integers, and an
  argument that is absent leaves the field as \<^verbatim>\<open>Chunker_new\<close> set it. The conversions are
  CPython's: \<^verbatim>\<open>k\<close> stores the integer in an \<^verbatim>\<open>unsigned long\<close> without overflow check, that
  is modulo \<open>2 ^ 64\<close>, negative values included; \<^verbatim>\<open>i\<close> converts to a C \<^verbatim>\<open>long\<close> and then
  to an \<^verbatim>\<open>int\<close> and raises \<^verbatim>\<open>OverflowError\<close> when the value does not fit. So
  \<^verbatim>\<open>Chunker(chunk_size=2**64 + 5)\<close> is a chunker with \<^verbatim>\<open>chunk_size\<close> 5.
\<close>

definition parse_k :: "int \<Rightarrow> nat" where
  "parse_k n = nat (n mod 2 ^ 64)"

definition parse_i :: "int \<Rightarrow> exc + int" where
  "parse_i n =
     (if n < - (2 ^ 63) \<or> 2 ^ 63 - 1 < n
        then Inl (OverflowError ''Python int too large to convert to C long'')
      else if 2 ^ 31 - 1 < n then Inl (OverflowError ''signed integer is greater than maximum'')
      else if n < - (2 ^ 31) then Inl (OverflowError ''signed integer is less than minimum'')
      else Inr n)"

definition Chunker_init ::
  "zlib \<Rightarrow> ChunkerObject \<Rightarrow> int option \<Rightarrow> int option \<Rightarrow> exc + ChunkerObject" where
  "Chunker_init Z self cs cl =
     (let self = self\<lparr>chunk_size := (case cs of None \<Rightarrow> chunk_size self | Some n \<Rightarrow> parse_k n)\<rparr> in
      case (case cl of None \<Rightarrow> Inr (compression_level self) | Some l \<Rightarrow> parse_i l) of
        Inl e \<Rightarrow> Inl e
      | Inr level \<Rightarrow>
          (let self = self\<lparr>compression_level := level\<rparr> in
           if chunk_size self \<le> 0 \<or> chunk_size self > MAX_CHUNK_SIZE
             then Inl (ValueError ''Invalid chunk size'')
           else if compression_level self < 0 \<or> compression_level self > 9
             then Inl (ValueError ''Invalid compression level'')
           else if deflateInit Z (compression_level self) = Z_OK
             then Inr (self\<lparr>zstream_initialized := 1\<rparr>)
           else Inl (RuntimeError ''Failed to initialize zlib stream'')))"

definition Chunker_chunk ::
  "(nat \<Rightarrow> bool) \<Rightarrow> zlib \<Rightarrow> ChunkerObject \<Rightarrow> bytes \<Rightarrow> exc + (string \<rightharpoonup> pyobj)" where
  "Chunker_chunk malloc Z self data =
     (if length data > MAX_CHUNK_SIZE then Inl (ValueError ''Data too large for chunking'')
      else
        let compressed_size = size_t (length data * 2) in
        if \<not> malloc compressed_size then Inl (MemoryError ''Failed to allocate memory'')
        else
          (case compress_data Z data compressed_size (compression_level self) of
             (result, compressed, compressed_size) \<Rightarrow>
               if result = Z_OK
               then Inr (Map.empty
                      (''data'' \<mapsto> PyBytes (PyBytes_FromStringAndSize compressed compressed_size),
                       ''algorithm'' \<mapsto> PyUnicode ''zlib'',
                       ''checksum'' \<mapsto> PyUnicode ''sha256_hash_here''))
               else Inl (RuntimeError ''Chunking failed'')))"

definition Chunker_decompress ::
  "(nat \<Rightarrow> bool) \<Rightarrow> zlib \<Rightarrow> ChunkerObject \<Rightarrow> bytes \<Rightarrow> exc + bytes" where
  "Chunker_decompress malloc Z self data =
     (let decompressed_size = size_t (length data * 4) in
      if \<not> malloc decompressed_size then Inl (MemoryError ''Failed to allocate memory'')
      else
        (case decompress_data Z data decompressed_size of
           (result, decompressed, decompressed_size) \<Rightarrow>
             if result = Z_OK
             then Inr (PyBytes_FromStringAndSize decompressed decompressed_size)
             else Inl (RuntimeError ''Decompression failed'')))"

section \<open>The interface of libsodium\<close>

text \<open>
  libsodium is not part of the repository either. The sizes are the values of its header
  macros. Its calls are the fields of a record:
  \<^item> \<open>crypto_secretbox_easy S m n k\<close> is \<^verbatim>\<open>crypto_secretbox_easy(c, m, mlen, n, k)\<close>: the
    return code and the bytes written to \<^verbatim>\<open>c\<close>;
  \<^item> \<open>crypto_secretbox_open_easy S c n k\<close> is
    \<^verbatim>\<open>crypto_secretbox_open_easy(m, c, clen, n, k)\<close>: the return code (non-zero when the
    tag does not verify) and the bytes written to \<^verbatim>\<open>m\<close>;
  \<^item> \<open>crypto_sign S m sk\<close> is \<^verbatim>\<open>crypto_sign(sm, &smlen, m, mlen, sk)\<close>: the return code and
    the signed message;
  \<^item> \<open>crypto_sign_verify_detached S sig m pk\<close> is the return code of
    \<^verbatim>\<open>crypto_sign_verify_detached(sig, m, mlen, pk)\<close>, where \<open>pk = None\<close> is a \<^verbatim>\<open>NULL\<close>
    pointer;
  \<^item> \<open>crypto_generichash S outlen m\<close> is the unkeyed hash written by
    \<^verbatim>\<open>crypto_generichash(out, outlen, m, mlen, NULL, 0)\<close>.

  The random bytes of \<^verbatim>\<open>randombytes_buf\<close> and the key pair of \<^verbatim>\<open>crypto_sign_keypair\<close> are
  arguments of the functions that draw them, so that two runs can be compared on the same
  draw.
\<close>

definition crypto_secretbox_KEYBYTES :: nat where
  "crypto_secretbox_KEYBYTES = 32"

definition crypto_secretbox_NONCEBYTES :: nat where
  "crypto_secretbox_NONCEBYTES = 24"

definition crypto_secretbox_MACBYTES :: nat where
  "crypto_secretbox_MACBYTES = 16"

definition crypto_sign_BYTES :: nat where
  "crypto_sign_BYTES = 64"

definition crypto_generichash_BYTES :: nat where
  "crypto_generichash_BYTES = 32"

record sodium =
  sodium_init :: int
  crypto_secretbox_easy :: "bytes \<Rightarrow> bytes \<Rightarrow> bytes \<Rightarrow> int \<times> bytes"
  crypto_secretbox_open_easy :: "bytes \<Rightarrow> bytes \<Rightarrow> bytes \<Rightarrow> int \<times> bytes"
  crypto_sign :: "bytes \<Rightarrow> bytes \<Rightarrow> int \<times> bytes"
  crypto_sign_verify_detached :: "bytes \<Rightarrow> bytes \<Rightarrow> bytes option \<Rightarrow> int"
  crypto_generichash :: "nat \<Rightarrow> bytes \<Rightarrow> bytes"

section \<open>encryptor.h and crypto.c\<close>

datatype crypto_algorithm_t =
  CRYPTO_XCHACHA20_POLY1305 | CRYPTO_CHACHA20_POLY1305 | CRYPTO_AES256_GCM | CRYPTO_SALSA20_POLY1305

text \<open>
  The output parameters \<^verbatim>\<open>unsigned char **encrypted\<close> and \<^verbatim>\<open>size_t *encrypted_size\<close> are a
  pair: the pointer (\<open>None\<close> for \<^verbatim>\<open>NULL\<close>, otherwise the contents of the buffer) and the
  size. A function takes their values on entry and returns its return code with their
  values on exit.

  \<^verbatim>\<open>encrypt_data\<close>: \<open>nonce\<close> is what \<^verbatim>\<open>randombytes_buf(nonce, sizeof(nonce))\<close> delivers.
  The source never reads \<^verbatim>\<open>additional_data\<close>, \<^verbatim>\<open>additional_data_len\<close> or \<^verbatim>\<open>algorithm\<close>.
\<close>

type_synonym out_param = "bytes option \<times> nat"

definition encrypt_data ::
  "(nat \<Rightarrow> bool) \<Rightarrow> sodium \<Rightarrow> bytes \<Rightarrow> bytes \<Rightarrow> bytes \<Rightarrow> bytes option \<Rightarrow> out_param \<Rightarrow>
     crypto_algorithm_t \<Rightarrow> int \<times> out_param" where
  "encrypt_data malloc S nonce data key additional_data out algorithm =
     (let total_size = size_t (crypto_secretbox_NONCEBYTES + crypto_secretbox_MACBYTES + length data) in
      if \<not> malloc total_size then (- 1, (None, snd out))
      else
        (case crypto_secretbox_easy S data nonce key of
           (result, c) \<Rightarrow>
             if result = 0 then (0, (Some (nonce @ c), total_size))
             else (- 1, (None, snd out))))"

definition decrypt_data ::
  "(nat \<Rightarrow> bool) \<Rightarrow> sodium \<Rightarrow> bytes \<Rightarrow> bytes \<Rightarrow> out_param \<Rightarrow> crypto_algorithm_t \<Rightarrow>
     int \<times> out_param" where
  "decrypt_data malloc S encrypted_data key out algorithm =
     (if length encrypted_data < crypto_secretbox_NONCEBYTES + crypto_secretbox_MACBYTES
      then (- 1, out)
      else
        let nonce = take crypto_secretbox_NONCEBYTES encrypted_data;
            ciphertext = drop crypto_secretbox_NONCEBYTES encrypted_data;
            ciphertext_len = length encrypted_data - crypto_secretbox_NONCEBYTES;
            decrypted_len = ciphertext_len - crypto_secretbox_MACBYTES
        in
        if \<not> malloc decrypted_len then (- 1, (None, snd out))
        else
          (case crypto_secretbox_open_easy S ciphertext nonce key of
             (result, m) \<Rightarrow>
               if result = 0 then (0, (Some m, decrypted_len))
               else (- 1, (None, snd out))))"

section \<open>utils.c\<close>

text \<open>
  \<^verbatim>\<open>calculate_checksum\<close> writes the hash as lower-case hexadecimal, two digits per byte
  (\<^verbatim>\<open>sprintf("%02x")\<close>). No function of either module calls it.
\<close>

definition hex_digit :: "nat \<Rightarrow> char" where
  "hex_digit n = (''0123456789abcdef'') ! (n mod 16)"

definition hex_byte :: "byte \<Rightarrow> string" where
  "hex_byte b = [hex_digit (unat b div 16), hex_digit (unat b)]"

definition calculate_checksum :: "sodium \<Rightarrow> bytes \<Rightarrow> string" where
  "calculate_checksum S data =
     concat (map hex_byte (take crypto_generichash_BYTES
       (crypto_generichash S crypto_generichash_BYTES data)))"

section \<open>encryptor.c\<close>

definition MAX_DATA_SIZE :: nat where
  "MAX_DATA_SIZE = 1024 * 1024 * 1024"

record EncryptorObject =
  algorithm :: string
  algorithm_type :: crypto_algorithm_t
  initialized :: int

definition Encryptor_new :: EncryptorObject where
  "Encryptor_new =
     \<lparr>algorithm = ''xchacha20-poly1305'', algorithm_type = CRYPTO_XCHACHA20_POLY1305,
      initialized = 0\<rparr>"

text \<open>
  \<^verbatim>\<open>Encryptor_init\<close>: \<^verbatim>\<open>strncpy\<close> keeps at most 63 characters of the name. An unsupported
  name is rejected after the copy, as in the source.
\<close>

definition Encryptor_init :: "sodium \<Rightarrow> EncryptorObject \<Rightarrow> string option \<Rightarrow> exc + EncryptorObject" where
  "Encryptor_init S self alg =
     (case
        (case alg of
           None \<Rightarrow> Inr self
         | Some a \<Rightarrow>
             (let self = self\<lparr>algorithm := take 63 a\<rparr> in
              if a = ''xchacha20-poly1305'' then Inr (self\<lparr>algorithm_type := CRYPTO_XCHACHA20_POLY1305\<rparr>)
              else if a = ''chacha20-poly1305'' then Inr (self\<lparr>algorithm_type := CRYPTO_CHACHA20_POLY1305\<rparr>)
              else if a = ''aes256-gcm'' then Inr (self\<lparr>algorithm_type := CRYPTO_AES256_GCM\<rparr>)
              else if a = ''salsa20-poly1305'' then Inr (self\<lparr>algorithm_type := CRYPTO_SALSA20_POLY1305\<rparr>)
              else Inl (ValueError ''Unsupported algorithm'')))
      of
        Inl e \<Rightarrow> Inl e
      | Inr self \<Rightarrow>
          if sodium_init S < 0 then Inl (RuntimeError ''Failed to initialize libsodium'')
          else Inr (self\<lparr>initialized := 1\<rparr>))"

definition Encryptor_encrypt ::
  "(nat \<Rightarrow> bool) \<Rightarrow> sodium \<Rightarrow> EncryptorObject \<Rightarrow> bytes \<Rightarrow> bytes \<Rightarrow> bytes \<Rightarrow> bytes option \<Rightarrow>
     exc + bytes" where
  "Encryptor_encrypt malloc S self nonce data key additional_data =
     (if initialized self = 0 then Inl (RuntimeError ''Encryptor not initialized'')
      else if length data > MAX_DATA_SIZE then Inl (ValueError ''Data too large'')
      else if length key \<noteq> crypto_secretbox_KEYBYTES then Inl (ValueError ''Invalid key size'')
      else
        (case encrypt_data malloc S nonce data key additional_data (None, 0) (algorithm_type self) of
           (result, (Some encrypted, encrypted_size)) \<Rightarrow>
             if result = 0 then Inr (PyBytes_FromStringAndSize encrypted encrypted_size)
             else Inl (RuntimeError ''Encryption failed'')
         | (result, (None, encrypted_size)) \<Rightarrow> Inl (RuntimeError ''Encryption failed'')))"

definition Encryptor_decrypt ::
  "(nat \<Rightarrow> bool) \<Rightarrow> sodium \<Rightarrow> EncryptorObject \<Rightarrow> bytes \<Rightarrow> bytes \<Rightarrow> exc + bytes" where
  "Encryptor_decrypt malloc S self encrypted_data key =
     (if initialized self = 0 then Inl (RuntimeError ''Encryptor not initialized'')
      else if length key \<noteq> crypto_secretbox_KEYBYTES then Inl (ValueError ''Invalid key size'')
      else
        (case decrypt_data malloc S encrypted_data key (None, 0) (algorithm_type self) of
           (result, (Some decrypted, decrypted_size)) \<Rightarrow>
             if result = 0 then Inr (PyBytes_FromStringAndSize decrypted decrypted_size)
             else Inl (RuntimeError ''Decryption failed'')
         | (result, (None, decrypted_size)) \<Rightarrow> Inl (RuntimeError ''Decryption failed'')))"

text \<open>
  \<^verbatim>\<open>Encryptor_sign\<close>: \<open>keypair\<close> is the pair (verify key, signing key) that the call of
  \<^verbatim>\<open>crypto_sign_keypair\<close> inside the function generates. The method takes the data only;
  the verify key is a local variable and is not returned.

  \<^verbatim>\<open>Encryptor_verify\<close> takes the data and the signature and passes \<^verbatim>\<open>NULL\<close> as the public
  key. It hands \<^verbatim>\<open>signature.buf\<close> to libsodium without looking at \<^verbatim>\<open>signature.len\<close>.
\<close>

definition Encryptor_sign ::
  "(nat \<Rightarrow> bool) \<Rightarrow> sodium \<Rightarrow> EncryptorObject \<Rightarrow> bytes \<times> bytes \<Rightarrow> bytes \<Rightarrow> exc + bytes" where
  "Encryptor_sign malloc S self keypair data =
     (if initialized self = 0 then Inl (RuntimeError ''Encryptor not initialized'')
      else
        (case keypair of
           (verify_key, signing_key) \<Rightarrow>
             if \<not> malloc (size_t (length data + crypto_sign_BYTES))
             then Inl (MemoryError ''Failed to allocate memory'')
             else
               (case crypto_sign S data signing_key of
                  (result, signed_data) \<Rightarrow>
                    if result = 0 then Inr (PyBytes_FromStringAndSize signed_data (length signed_data))
                    else Inl (RuntimeError ''Signing failed''))))"

definition Encryptor_verify :: "sodium \<Rightarrow> EncryptorObject \<Rightarrow> bytes \<Rightarrow> bytes \<Rightarrow> exc + bool" where
  "Encryptor_verify S self data signature =
     (if initialized self = 0 then Inl (RuntimeError ''Encryptor not initialized'')
      else
        let result = crypto_sign_verify_detached S signature data None in
        if result = 0 then Inr True else Inr False)"

definition Encryptor_cleanup :: "EncryptorObject \<Rightarrow> EncryptorObject" where
  "Encryptor_cleanup self = self\<lparr>initialized := 0\<rparr>"

section \<open>What libsodium promises, and a stand-in that keeps the promise\<close>

text \<open>
  One part of libsodium's documented contract for \<^verbatim>\<open>crypto_secretbox\<close> is used below, as a
  predicate on the record. \<open>secretbox_sizes\<close>: a successful \<^verbatim>\<open>crypto_secretbox_easy\<close> writes
  \<^verbatim>\<open>crypto_secretbox_MACBYTES + mlen\<close> bytes, and a successful
  \<^verbatim>\<open>crypto_secretbox_open_easy\<close> writes \<^verbatim>\<open>clen - crypto_secretbox_MACBYTES\<close> bytes.
\<close>

definition secretbox_sizes :: "sodium \<Rightarrow> bool" where
  "secretbox_sizes S \<longleftrightarrow>
     (\<forall>m n k c. crypto_secretbox_easy S m n k = (0, c) \<longrightarrow>
        length c = crypto_secretbox_MACBYTES + length m) \<and>
     (\<forall>c n k m. crypto_secretbox_open_easy S c n k = (0, m) \<longrightarrow>
        length m = length c - crypto_secretbox_MACBYTES)"

text \<open>
  \<open>demo_sodium\<close> has the interface and the sizes of libsodium and keeps the promise. It
  is not XSalsa20-Poly1305: the body is the message shifted by a byte derived from nonce
  and key, and the tag repeats one checksum byte. It serves to run the functions above on
  concrete inputs; no general statement depends on it. \<open>demo_self\<close> is the object that
  \<^verbatim>\<open>Encryptor()\<close> constructs, and \<open>demo_chunker\<close> further down the one that \<^verbatim>\<open>Chunker()\<close>
  constructs.
\<close>

definition demo_pad :: "bytes \<Rightarrow> bytes \<Rightarrow> byte" where
  "demo_pad n k = sum_list n + sum_list k"

definition demo_tag :: "bytes \<Rightarrow> bytes \<Rightarrow> bytes \<Rightarrow> bytes" where
  "demo_tag m n k = replicate crypto_secretbox_MACBYTES (sum_list m + demo_pad n k + 1)"

definition demo_secretbox_easy :: "bytes \<Rightarrow> bytes \<Rightarrow> bytes \<Rightarrow> int \<times> bytes" where
  "demo_secretbox_easy m n k = (0, demo_tag m n k @ map (\<lambda>b. b + demo_pad n k) m)"

definition demo_secretbox_open_easy :: "bytes \<Rightarrow> bytes \<Rightarrow> bytes \<Rightarrow> int \<times> bytes" where
  "demo_secretbox_open_easy c n k =
     (if length c < crypto_secretbox_MACBYTES then (- 1, [])
      else
        let m = map (\<lambda>b. b - demo_pad n k) (drop crypto_secretbox_MACBYTES c) in
        if take crypto_secretbox_MACBYTES c = demo_tag m n k then (0, m) else (- 1, []))"

definition demo_sodium :: sodium where
  "demo_sodium =
     \<lparr>sodium_init = 0,
      crypto_secretbox_easy = demo_secretbox_easy,
      crypto_secretbox_open_easy = demo_secretbox_open_easy,
      crypto_sign = (\<lambda>m sk. (0, replicate crypto_sign_BYTES (sum_list m + sum_list sk) @ m)),
      crypto_sign_verify_detached = (\<lambda>sg m pk. - 1),
      crypto_generichash = (\<lambda>n m. replicate n (sum_list m))\<rparr>"

definition demo_key :: bytes where
  "demo_key = replicate 32 9"

definition demo_nonce :: bytes where
  "demo_nonce = replicate 24 7"

definition demo_envelope :: bytes where
  "demo_envelope = demo_nonce @ replicate 16 207 @ [201, 202, 203]"

definition demo_tampered :: bytes where
  "demo_tampered = demo_nonce @ replicate 16 207 @ [201, 202, 204]"

definition demo_self :: EncryptorObject where
  "demo_self = Encryptor_new\<lparr>initialized := 1\<rparr>"

section \<open>What zlib promises, and a stand-in that keeps the promises\<close>

text \<open>
  Two parts of zlib's documented behaviour are used below, each as a predicate on the
  record:
  \<^item> \<open>zlib_no_room\<close>: \<^verbatim>\<open>deflate\<close> returns \<^verbatim>\<open>Z_BUF_ERROR\<close> when \<^verbatim>\<open>avail_out\<close> is zero (no
    progress is possible);
  \<^item> \<open>zlib_deflate_bound\<close>: on a stream that \<^verbatim>\<open>deflateInit\<close> accepted, a single
    \<^verbatim>\<open>deflate(Z_FINISH)\<close> ends the stream when the room is at least
    \<^verbatim>\<open>compressBound(sourceLen)\<close>, the bound that zlib's own \<^verbatim>\<open>compress2\<close> asks of its caller.
\<close>

definition compressBound :: "nat \<Rightarrow> nat" where
  "compressBound sourceLen =
     sourceLen + sourceLen div 2 ^ 12 + sourceLen div 2 ^ 14 + sourceLen div 2 ^ 25 + 13"

definition zlib_no_room :: "zlib \<Rightarrow> bool" where
  "zlib_no_room Z \<longleftrightarrow> (\<forall>level input. fst (deflate Z level input 0) = Z_BUF_ERROR)"

definition zlib_deflate_bound :: "zlib \<Rightarrow> bool" where
  "zlib_deflate_bound Z \<longleftrightarrow>
     (\<forall>level input room. deflateInit Z level = Z_OK \<and> compressBound (length input) \<le> room \<longrightarrow>
        fst (deflate Z level input room) = Z_STREAM_END)"

text \<open>
  \<open>zlib_stored\<close> has the interface of zlib and keeps both promises. It writes the zlib
  stream made of stored blocks (header \<^verbatim>\<open>78 01\<close>, blocks of at most 65535 bytes with their
  length and its complement, Adler-32 trailer), which is what zlib 1.3 writes at level 0 for
  the short inputs used below, and it does so at every level. When the room is too small
  for the stream it fills the room and returns \<^verbatim>\<open>Z_OK\<close>, as \<^verbatim>\<open>deflate\<close> does. Its
  \<^verbatim>\<open>inflate\<close> reads stored blocks only and reports every malformed or truncated stream as
  \<^verbatim>\<open>Z_DATA_ERROR\<close> (zlib reports a truncated one as \<^verbatim>\<open>Z_BUF_ERROR\<close>; the chunker treats
  both alike). It serves to run the chunker on concrete inputs; no general statement
  depends on it.
\<close>

definition adler32 :: "bytes \<Rightarrow> nat" where
  "adler32 d =
     (case fold (\<lambda>x (a, b). ((a + unat x) mod 65521, (b + (a + unat x) mod 65521) mod 65521)) d (1, 0) of
        (a, b) \<Rightarrow> b * 65536 + a)"

definition be32 :: "nat \<Rightarrow> bytes" where
  "be32 n = [of_nat (n div 2 ^ 24), of_nat (n div 2 ^ 16), of_nat (n div 2 ^ 8), of_nat n]"

definition stored_header :: "bool \<Rightarrow> nat \<Rightarrow> bytes" where
  "stored_header final len =
     [if final then 1 else 0, of_nat len, of_nat (len div 256),
      NOT (of_nat len), NOT (of_nat (len div 256))]"

function stored_blocks :: "bytes \<Rightarrow> bytes" where
  "stored_blocks d =
     (if length d \<le> 65535 then stored_header True (length d) @ d
      else stored_header False 65535 @ take 65535 d @ stored_blocks (drop 65535 d))"
  by pat_completeness auto
termination
  by (relation "measure length") auto

declare stored_blocks.simps [simp del]

definition stored_stream :: "bytes \<Rightarrow> bytes" where
  "stored_stream d = [0x78, 0x01] @ stored_blocks d @ be32 (adler32 d)"

function stored_unblocks :: "bytes \<Rightarrow> (bytes \<times> bytes) option" where
  "stored_unblocks s =
     (case s of
        h # l0 # l1 # n0 # n1 # rest \<Rightarrow>
          (let len = unat l0 + 256 * unat l1 in
           if h > 1 \<or> n0 \<noteq> NOT l0 \<or> n1 \<noteq> NOT l1 \<or> length rest < len then None
           else if h = 1 then Some (take len rest, drop len rest)
           else (case stored_unblocks (drop len rest) of
                   None \<Rightarrow> None
                 | Some (d, r) \<Rightarrow> Some (take len rest @ d, r)))
      | _ \<Rightarrow> None)"
  by pat_completeness auto
termination
  by (relation "measure length") auto

declare stored_unblocks.simps [simp del]

definition stored_unstream :: "bytes \<Rightarrow> bytes option" where
  "stored_unstream s =
     (case s of
        c # f # body \<Rightarrow>
          if c \<noteq> 0x78 \<or> (unat c * 256 + unat f) mod 31 \<noteq> 0 then None
          else (case stored_unblocks body of
                  None \<Rightarrow> None
                | Some (d, trailer) \<Rightarrow> if trailer = be32 (adler32 d) then Some d else None)
      | _ \<Rightarrow> None)"

definition zlib_stored :: zlib where
  "zlib_stored =
     \<lparr>deflateInit = (\<lambda>level. if - 1 \<le> level \<and> level \<le> 9 then Z_OK else Z_STREAM_ERROR),
      deflate = (\<lambda>level input avail_out.
        if avail_out = 0 then (Z_BUF_ERROR, [])
        else if length (stored_stream input) \<le> avail_out then (Z_STREAM_END, stored_stream input)
        else (Z_OK, take avail_out (stored_stream input))),
      inflateInit = Z_OK,
      inflate = (\<lambda>input avail_out.
        case stored_unstream input of
          None \<Rightarrow> (Z_DATA_ERROR, [])
        | Some d \<Rightarrow> if length d \<le> avail_out then (Z_STREAM_END, d)
                    else (Z_BUF_ERROR, take avail_out d))\<rparr>"

definition demo_payload :: bytes where
  "demo_payload = [76, 117, 99, 105, 100, 32, 99, 104, 117, 110, 107, 32, 48, 48, 48, 49]"

definition demo_stream :: bytes where
  "demo_stream = [120, 1, 1, 16, 0, 239, 255, 76, 117, 99, 105, 100, 32, 99, 104, 117, 110, 107, 32,
                  48, 48, 48, 49, 47, 173, 5, 12]"

definition demo_chunker :: ChunkerObject where
  "demo_chunker = Chunker_new\<lparr>zstream_initialized := 1\<rparr>"

section \<open>Properties of crypto.c that hold for every libsodium\<close>

text \<open>
  Claim C10. \<^verbatim>\<open>encrypt_data\<close> and \<^verbatim>\<open>decrypt_data\<close> do not depend on their \<^verbatim>\<open>algorithm\<close>
  argument: for any two values of \<^verbatim>\<open>crypto_algorithm_t\<close> and the same remaining inputs (the
  nonce included) the return code, the output buffer and the output size are the same,
  since every algorithm runs \<^verbatim>\<open>crypto_secretbox_easy\<close> or \<^verbatim>\<open>crypto_secretbox_open_easy\<close>.
  The same holds one level up: \<^verbatim>\<open>Encryptor.encrypt\<close> and \<^verbatim>\<open>Encryptor.decrypt\<close> return the
  same value whatever algorithm the object was configured with.
\<close>

theorem algorithm_argument_ignored:
  "encrypt_data malloc S nonce data key ad out a1 = encrypt_data malloc S nonce data key ad out a2
   \<and> decrypt_data malloc S encrypted_data key out a1 = decrypt_data malloc S encrypted_data key out a2
   \<and> Encryptor_encrypt malloc S (self\<lparr>algorithm := name, algorithm_type := a1\<rparr>) nonce data key ad
       = Encryptor_encrypt malloc S self nonce data key ad
   \<and> Encryptor_decrypt malloc S (self\<lparr>algorithm := name, algorithm_type := a1\<rparr>) encrypted_data key
       = Encryptor_decrypt malloc S self encrypted_data key"
  by (simp add: encrypt_data_def decrypt_data_def Encryptor_encrypt_def Encryptor_decrypt_def)

text \<open>
  Claim C3 (what the code does instead). The claim asks that the associated data be bound
  into the tag. \<^verbatim>\<open>encrypt_data\<close> receives \<^verbatim>\<open>additional_data\<close> and never reads it: the
  envelope sealed with one associated data is, byte for byte, the envelope sealed with any
  other (or with none) on the same nonce, and \<^verbatim>\<open>decrypt_data\<close> and \<^verbatim>\<open>Encryptor.decrypt\<close> have
  no associated-data argument at all. So an envelope opens the same way whatever data it
  was sealed with.
\<close>

theorem additional_data_not_bound:
  "encrypt_data malloc S nonce data key ad1 out a = encrypt_data malloc S nonce data key ad2 out a
   \<and> Encryptor_encrypt malloc S self nonce data key ad1
       = Encryptor_encrypt malloc S self nonce data key ad2"
  by (simp add: encrypt_data_def Encryptor_encrypt_def)

section \<open>The stand-in keeps libsodium's promise\<close>

lemma demo_sizes: "secretbox_sizes demo_sodium"
  by (auto simp: secretbox_sizes_def demo_sodium_def demo_secretbox_easy_def
      demo_secretbox_open_easy_def demo_tag_def Let_def split: if_splits)

lemma demo_nonce_length: "length demo_nonce = 24"
  by (simp add: demo_nonce_def)

lemma demo_pad_val: "demo_pad demo_nonce demo_key = 200"
  by (simp add: demo_pad_def demo_key_def demo_nonce_def sum_list_replicate)

lemma demo_encrypt:
  "encrypt_data (\<lambda>n. True) demo_sodium demo_nonce [1, 2, 3] demo_key None (None, 0)
     CRYPTO_XCHACHA20_POLY1305
   = (0, (Some (demo_nonce @ replicate 16 207 @ [201, 202, 203]), 43))"
  by (simp add: encrypt_data_def demo_sodium_def demo_secretbox_easy_def demo_tag_def
      demo_pad_val size_t_def crypto_secretbox_NONCEBYTES_def crypto_secretbox_MACBYTES_def)

lemma demo_decrypt:
  "decrypt_data (\<lambda>n. True) demo_sodium (demo_nonce @ replicate 16 207 @ [201, 202, 203]) demo_key (None, 0)
     CRYPTO_XCHACHA20_POLY1305
   = (0, (Some [1,2,3], 3))"
  by (simp add: decrypt_data_def demo_sodium_def demo_secretbox_open_easy_def demo_tag_def
      demo_pad_val crypto_secretbox_NONCEBYTES_def crypto_secretbox_MACBYTES_def demo_nonce_length)

lemma demo_self_init: "Encryptor_init demo_sodium Encryptor_new None = Inr demo_self"
  by (simp add: Encryptor_init_def demo_sodium_def demo_self_def)

lemma demo_key_length: "length demo_key = crypto_secretbox_KEYBYTES"
  by (simp add: demo_key_def crypto_secretbox_KEYBYTES_def)

lemma demo_tampered_rejected:
  "fst (crypto_secretbox_open_easy demo_sodium (drop crypto_secretbox_NONCEBYTES demo_tampered)
      (take crypto_secretbox_NONCEBYTES demo_tampered) demo_key) \<noteq> 0"
  by (simp add: demo_tampered_def demo_sodium_def demo_secretbox_open_easy_def demo_tag_def
      demo_pad_val crypto_secretbox_NONCEBYTES_def crypto_secretbox_MACBYTES_def demo_nonce_length)

lemma demo_encrypt':
  "encrypt_data (\<lambda>n. True) demo_sodium demo_nonce [1, 2, 3] demo_key None (None, 0)
     CRYPTO_XCHACHA20_POLY1305 = (0, (Some demo_envelope, 43))"
  using demo_encrypt by (simp add: demo_envelope_def)

lemma demo_decrypt':
  "decrypt_data (\<lambda>n. True) demo_sodium demo_envelope demo_key (None, 0)
     CRYPTO_XCHACHA20_POLY1305 = (0, (Some [1, 2, 3], 3))"
  using demo_decrypt by (simp add: demo_envelope_def)

section \<open>Failure paths of decrypt_data\<close>

text \<open>
  Claim C8. For every input shorter than \<^verbatim>\<open>crypto_secretbox_NONCEBYTES +
  crypto_secretbox_MACBYTES\<close> (40 bytes), \<^verbatim>\<open>decrypt_data\<close> fails on its length check: it
  returns \<^verbatim>\<open>-1\<close> and leaves both output parameters as they were, so no plaintext is
  returned. The equation holds for every allocator, every libsodium and every key, so
  neither \<^verbatim>\<open>malloc\<close> nor \<^verbatim>\<open>crypto_secretbox_open_easy\<close> has any part in the result: the
  check comes before the allocation and before any decryption, and before the pointer
  arithmetic that would step past a short input. \<^verbatim>\<open>Encryptor.decrypt\<close>, on an initialised
  object with a key of the right size, raises \<^verbatim>\<open>RuntimeError("Decryption failed")\<close>. The code
  has this one failure value where the specification names the kind
  \<^verbatim>\<open>MalformedEnvelope\<close>.
\<close>

theorem short_envelope_rejected:
  "length encrypted_data < crypto_secretbox_NONCEBYTES + crypto_secretbox_MACBYTES \<Longrightarrow>
     decrypt_data malloc S encrypted_data key out a = (- 1, out)
     \<and> (initialized self \<noteq> 0 \<and> length key = crypto_secretbox_KEYBYTES \<longrightarrow>
          Encryptor_decrypt malloc S self encrypted_data key = Inl (RuntimeError ''Decryption failed''))"
  by (simp add: decrypt_data_def Encryptor_decrypt_def)

theorem short_envelope_rejected_witness:
  "length (replicate 39 (0 :: byte)) < crypto_secretbox_NONCEBYTES + crypto_secretbox_MACBYTES
   \<and> decrypt_data (\<lambda>n. True) demo_sodium (replicate 39 0) demo_key (None, 0) CRYPTO_AES256_GCM
       = (- 1, (None, 0))
   \<and> Encryptor_decrypt (\<lambda>n. True) demo_sodium demo_self (replicate 39 0) demo_key
       = Inl (RuntimeError ''Decryption failed'')"
proof -
  have short: "length (replicate 39 (0 :: byte)) < crypto_secretbox_NONCEBYTES + crypto_secretbox_MACBYTES"
    by (simp add: crypto_secretbox_NONCEBYTES_def crypto_secretbox_MACBYTES_def)
  have init: "initialized demo_self \<noteq> 0"
    by (simp add: demo_self_def)
  from short_envelope_rejected [OF short, of "\<lambda>n. True" demo_sodium demo_key "(None, 0)"
      CRYPTO_AES256_GCM demo_self] short init demo_key_length
  show ?thesis by simp
qed

text \<open>
  Claim C2 is not stated in this theory. That a wrong key or an altered bit makes
  \<^verbatim>\<open>crypto_secretbox_open_easy\<close> reject is the unforgeability of libsodium's primitive: it
  holds up to a forgery probability and against adversaries of bounded running time.
  libsodium is a parameter of the model, and the model has neither probabilities nor
  running times, so the claim has no counterpart here.

  What follows is only what \<^verbatim>\<open>decrypt_data\<close> does once the primitive has rejected: it
  returns \<^verbatim>\<open>-1\<close> with the output pointer \<^verbatim>\<open>NULL\<close>, the buffer being freed whatever libsodium
  wrote to it; every failing call that started from a \<^verbatim>\<open>NULL\<close> output pointer ends with a
  \<^verbatim>\<open>NULL\<close> output pointer and the size untouched; and \<^verbatim>\<open>Encryptor.decrypt\<close> then raises
  \<^verbatim>\<open>RuntimeError("Decryption failed")\<close> and returns no bytes.
\<close>

lemma decrypt_failure_returns_no_plaintext:
  "(crypto_secretbox_NONCEBYTES + crypto_secretbox_MACBYTES \<le> length encrypted_data
      \<and> fst (crypto_secretbox_open_easy S (drop crypto_secretbox_NONCEBYTES encrypted_data)
               (take crypto_secretbox_NONCEBYTES encrypted_data) key) \<noteq> 0
    \<longrightarrow> decrypt_data malloc S encrypted_data key out a = (- 1, (None, snd out)))
   \<and> (fst (decrypt_data malloc S encrypted_data key (None, n) a) \<noteq> 0
    \<longrightarrow> decrypt_data malloc S encrypted_data key (None, n) a = (- 1, (None, n)))
   \<and> (initialized self \<noteq> 0 \<and> length key = crypto_secretbox_KEYBYTES
      \<and> fst (decrypt_data malloc S encrypted_data key (None, 0) (algorithm_type self)) \<noteq> 0
    \<longrightarrow> Encryptor_decrypt malloc S self encrypted_data key = Inl (RuntimeError ''Decryption failed''))"
proof (intro conjI impI)
  assume "crypto_secretbox_NONCEBYTES + crypto_secretbox_MACBYTES \<le> length encrypted_data
      \<and> fst (crypto_secretbox_open_easy S (drop crypto_secretbox_NONCEBYTES encrypted_data)
               (take crypto_secretbox_NONCEBYTES encrypted_data) key) \<noteq> 0"
  then show "decrypt_data malloc S encrypted_data key out a = (- 1, (None, snd out))"
    by (auto simp: decrypt_data_def Let_def split: prod.splits)
next
  assume "fst (decrypt_data malloc S encrypted_data key (None, n) a) \<noteq> 0"
  then show "decrypt_data malloc S encrypted_data key (None, n) a = (- 1, (None, n))"
    by (auto simp: decrypt_data_def Let_def split: prod.splits if_splits)
next
  assume "initialized self \<noteq> 0 \<and> length key = crypto_secretbox_KEYBYTES
      \<and> fst (decrypt_data malloc S encrypted_data key (None, 0) (algorithm_type self)) \<noteq> 0"
  then show "Encryptor_decrypt malloc S self encrypted_data key = Inl (RuntimeError ''Decryption failed'')"
    by (auto simp: Encryptor_decrypt_def split: prod.splits option.splits)
qed

lemma decrypt_failure_on_tampered_demo:
  "crypto_secretbox_NONCEBYTES + crypto_secretbox_MACBYTES \<le> length demo_tampered
   \<and> fst (crypto_secretbox_open_easy demo_sodium (drop crypto_secretbox_NONCEBYTES demo_tampered)
          (take crypto_secretbox_NONCEBYTES demo_tampered) demo_key) \<noteq> 0
   \<and> decrypt_data (\<lambda>n. True) demo_sodium demo_tampered demo_key (None, 0) CRYPTO_XCHACHA20_POLY1305
       = (- 1, (None, 0))
   \<and> Encryptor_decrypt (\<lambda>n. True) demo_sodium demo_self demo_tampered demo_key
       = Inl (RuntimeError ''Decryption failed'')"
proof -
  have len: "crypto_secretbox_NONCEBYTES + crypto_secretbox_MACBYTES \<le> length demo_tampered"
    by (simp add: demo_tampered_def demo_nonce_length crypto_secretbox_NONCEBYTES_def
        crypto_secretbox_MACBYTES_def)
  note inst = decrypt_failure_returns_no_plaintext
    [of demo_tampered demo_sodium demo_key "\<lambda>n. True" "(None, 0)" CRYPTO_XCHACHA20_POLY1305 0 demo_self]
  from inst [THEN conjunct1] len demo_tampered_rejected
  have d: "decrypt_data (\<lambda>n. True) demo_sodium demo_tampered demo_key (None, 0)
             CRYPTO_XCHACHA20_POLY1305 = (- 1, (None, snd (None :: bytes option, 0 :: nat)))"
    by blast
  have self: "initialized demo_self \<noteq> 0" "algorithm_type demo_self = CRYPTO_XCHACHA20_POLY1305"
    by (simp_all add: demo_self_def Encryptor_new_def)
  have "fst (decrypt_data (\<lambda>n. True) demo_sodium demo_tampered demo_key (None, 0)
          (algorithm_type demo_self)) \<noteq> 0"
    by (simp add: d self)
  with inst [THEN conjunct2, THEN conjunct2] self(1) demo_key_length
  have "Encryptor_decrypt (\<lambda>n. True) demo_sodium demo_self demo_tampered demo_key
          = Inl (RuntimeError ''Decryption failed'')"
    by blast
  with len demo_tampered_rejected d show ?thesis by simp
qed

section \<open>Sizes of envelopes and plaintexts\<close>

text \<open>
  Claim C9. With a libsodium that keeps \<open>secretbox_sizes\<close> and a plaintext of length \<open>L\<close>
  (small enough that \<open>L + 40\<close> fits in \<^verbatim>\<open>size_t\<close>), every successful \<^verbatim>\<open>encrypt_data\<close>
  returns a buffer of exactly \<^verbatim>\<open>crypto_secretbox_NONCEBYTES + crypto_secretbox_MACBYTES + L\<close>
  bytes, reports that number as \<^verbatim>\<open>*encrypted_size\<close>, and the first
  \<^verbatim>\<open>crypto_secretbox_NONCEBYTES\<close> bytes are the nonce that was drawn. Every successful
  \<^verbatim>\<open>decrypt_data\<close> of an \<open>N\<close>-byte input had \<open>N \<ge> 40\<close> and returns exactly
  \<^verbatim>\<open>N - crypto_secretbox_NONCEBYTES - crypto_secretbox_MACBYTES\<close> bytes of plaintext.
\<close>

theorem envelope_lengths:
  "secretbox_sizes S \<Longrightarrow> length nonce = crypto_secretbox_NONCEBYTES \<Longrightarrow>
   length data + crypto_secretbox_NONCEBYTES + crypto_secretbox_MACBYTES < 2 ^ 64 \<Longrightarrow>
     (\<forall>buf n. encrypt_data malloc S nonce data key ad out a = (0, (buf, n)) \<longrightarrow>
        (\<exists>e. buf = Some e
           \<and> n = crypto_secretbox_NONCEBYTES + crypto_secretbox_MACBYTES + length data
           \<and> length e = n \<and> take crypto_secretbox_NONCEBYTES e = nonce))
     \<and> (\<forall>buf n. decrypt_data malloc S encrypted_data key out a = (0, (buf, n)) \<longrightarrow>
        (\<exists>m. buf = Some m
           \<and> crypto_secretbox_NONCEBYTES + crypto_secretbox_MACBYTES \<le> length encrypted_data
           \<and> n = length encrypted_data - crypto_secretbox_NONCEBYTES - crypto_secretbox_MACBYTES
           \<and> length m = n))"
proof (intro conjI allI impI)
  fix buf n
  assume S: "secretbox_sizes S" and ln: "length nonce = crypto_secretbox_NONCEBYTES"
    and sz: "length data + crypto_secretbox_NONCEBYTES + crypto_secretbox_MACBYTES < 2 ^ 64"
    and ok: "encrypt_data malloc S nonce data key ad out a = (0, (buf, n))"
  obtain r c where easy: "crypto_secretbox_easy S data nonce key = (r, c)"
    by (cases "crypto_secretbox_easy S data nonce key")
  have total: "size_t (crypto_secretbox_NONCEBYTES + crypto_secretbox_MACBYTES + length data)
                 = crypto_secretbox_NONCEBYTES + crypto_secretbox_MACBYTES + length data"
    using sz by (simp add: size_t_def add.commute add.left_commute)
  from ok easy have r: "r = 0" and buf: "buf = Some (nonce @ c)"
    and n: "n = crypto_secretbox_NONCEBYTES + crypto_secretbox_MACBYTES + length data"
    by (auto simp: encrypt_data_def Let_def total split: if_splits)
  from S easy r have "length c = crypto_secretbox_MACBYTES + length data"
    unfolding secretbox_sizes_def by blast
  with buf n ln
  show "\<exists>e. buf = Some e
           \<and> n = crypto_secretbox_NONCEBYTES + crypto_secretbox_MACBYTES + length data
           \<and> length e = n \<and> take crypto_secretbox_NONCEBYTES e = nonce"
    by simp
next
  fix buf n
  assume S: "secretbox_sizes S"
    and ok: "decrypt_data malloc S encrypted_data key out a = (0, (buf, n))"
  let ?c = "drop crypto_secretbox_NONCEBYTES encrypted_data"
  let ?n = "take crypto_secretbox_NONCEBYTES encrypted_data"
  obtain r m where op: "crypto_secretbox_open_easy S ?c ?n key = (r, m)"
    by (cases "crypto_secretbox_open_easy S ?c ?n key")
  from ok op have long: "crypto_secretbox_NONCEBYTES + crypto_secretbox_MACBYTES \<le> length encrypted_data"
    and r: "r = 0" and buf: "buf = Some m"
    and n: "n = length encrypted_data - crypto_secretbox_NONCEBYTES - crypto_secretbox_MACBYTES"
    by (auto simp: decrypt_data_def Let_def split: if_splits)
  from S op r have "length m = length ?c - crypto_secretbox_MACBYTES"
    unfolding secretbox_sizes_def by blast
  with long buf n
  show "\<exists>m. buf = Some m
           \<and> crypto_secretbox_NONCEBYTES + crypto_secretbox_MACBYTES \<le> length encrypted_data
           \<and> n = length encrypted_data - crypto_secretbox_NONCEBYTES - crypto_secretbox_MACBYTES
           \<and> length m = n"
    by simp
qed

theorem envelope_lengths_witness:
  "secretbox_sizes demo_sodium \<and> length demo_nonce = crypto_secretbox_NONCEBYTES
   \<and> length [1, 2, 3 :: byte] + crypto_secretbox_NONCEBYTES + crypto_secretbox_MACBYTES < 2 ^ 64
   \<and> encrypt_data (\<lambda>n. True) demo_sodium demo_nonce [1, 2, 3] demo_key None (None, 0)
       CRYPTO_XCHACHA20_POLY1305 = (0, (Some demo_envelope, 43))
   \<and> length demo_envelope = 43 \<and> take crypto_secretbox_NONCEBYTES demo_envelope = demo_nonce
   \<and> decrypt_data (\<lambda>n. True) demo_sodium demo_envelope demo_key (None, 0)
       CRYPTO_XCHACHA20_POLY1305 = (0, (Some [1, 2, 3], 3))
   \<and> length [1, 2, 3 :: byte] = length demo_envelope - crypto_secretbox_NONCEBYTES - crypto_secretbox_MACBYTES"
proof -
  have ln: "length demo_nonce = crypto_secretbox_NONCEBYTES"
    by (simp add: demo_nonce_length crypto_secretbox_NONCEBYTES_def)
  have sz: "length [1, 2, 3 :: byte] + crypto_secretbox_NONCEBYTES + crypto_secretbox_MACBYTES < 2 ^ 64"
    by (simp add: crypto_secretbox_NONCEBYTES_def crypto_secretbox_MACBYTES_def)
  note inst = envelope_lengths [OF demo_sizes ln sz, of "\<lambda>n. True" demo_key None "(None, 0)"
      CRYPTO_XCHACHA20_POLY1305 demo_envelope]
  from inst demo_encrypt' have e: "length demo_envelope = 43
      \<and> take crypto_secretbox_NONCEBYTES demo_envelope = demo_nonce"
    by auto
  from inst demo_decrypt' have d: "length [1, 2, 3 :: byte]
      = length demo_envelope - crypto_secretbox_NONCEBYTES - crypto_secretbox_MACBYTES"
    by auto
  from demo_sizes ln sz demo_encrypt' demo_decrypt' e d show ?thesis by simp
qed

section \<open>The stand-in keeps zlib's promises\<close>

lemma adler32_demo: "adler32 demo_payload = 799868172"
  by (simp add: adler32_def demo_payload_def)

lemma be32_demo: "be32 799868172 = [47, 173, 5, 12]"
  by (simp add: be32_def)

lemma stored_stream_demo: "stored_stream demo_payload = demo_stream"
  by (simp add: stored_stream_def adler32_demo be32_demo)
     (simp add: demo_payload_def demo_stream_def stored_blocks.simps stored_header_def)

lemma stored_unstream_demo: "stored_unstream demo_stream = Some demo_payload"
proof -
  have "stored_unblocks (drop 2 demo_stream) = Some (demo_payload, [47, 173, 5, 12])"
    by (simp add: demo_stream_def demo_payload_def stored_unblocks.simps)
  then show ?thesis
    by (simp add: stored_unstream_def demo_stream_def adler32_demo be32_demo)
qed

lemma chunk_demo:
  "Chunker_chunk (\<lambda>n. True) zlib_stored demo_chunker demo_payload
     = Inr [''data'' \<mapsto> PyBytes demo_stream, ''algorithm'' \<mapsto> PyUnicode ''zlib'',
            ''checksum'' \<mapsto> PyUnicode ''sha256_hash_here'']"
proof -
  have "length demo_payload = 16" "length demo_stream = 27"
    by (simp_all add: demo_payload_def demo_stream_def)
  then show ?thesis
    by (simp add: Chunker_chunk_def compress_data_def zlib_stored_def stored_stream_demo
        MAX_CHUNK_SIZE_def size_t_def uInt_def demo_chunker_def Chunker_new_def
        PyBytes_FromStringAndSize_def)
qed

lemma chunk_empty:
  "Chunker_chunk (\<lambda>n. True) zlib_stored demo_chunker [] = Inl (RuntimeError ''Chunking failed'')"
  by (simp add: Chunker_chunk_def compress_data_def zlib_stored_def
        MAX_CHUNK_SIZE_def size_t_def uInt_def demo_chunker_def Chunker_new_def)

lemma decompress_demo:
  "Chunker_decompress (\<lambda>n. n = 108) zlib_stored demo_chunker demo_stream = Inr demo_payload
   \<and> Chunker_decompress (\<lambda>n. n = 16) zlib_stored demo_chunker demo_stream
       = Inl (MemoryError ''Failed to allocate memory'')"
proof -
  have "length demo_payload = 16" "length demo_stream = 27"
    by (simp_all add: demo_payload_def demo_stream_def)
  then show ?thesis
    by (simp add: Chunker_decompress_def decompress_data_def zlib_stored_def stored_unstream_demo
        size_t_def uInt_def PyBytes_FromStringAndSize_def)
qed

lemma length_stored_blocks: "length (stored_blocks d) \<le> length d + 5 + 5 * (length d div 65535)"
proof (induction d rule: stored_blocks.induct)
  case (1 d)
  show ?case
  proof (cases "length d \<le> 65535")
    case True
    then show ?thesis by (subst stored_blocks.simps) (simp add: stored_header_def)
  next
    case False
    with 1 have "length (stored_blocks (drop 65535 d))
        \<le> length (drop 65535 d) + 5 + 5 * (length (drop 65535 d) div 65535)"
      by simp
    moreover have "(length d - 65535) div 65535 + 1 = length d div 65535"
      using False by (simp add: le_div_geq)
    ultimately show ?thesis
      using False by (subst stored_blocks.simps) (simp add: stored_header_def)
  qed
qed

lemma length_stored_stream: "length (stored_stream d) \<le> compressBound (length d)"
proof -
  have "5 * (length d div 65535) \<le> length d div 4096 + 2" by arith
  with length_stored_blocks [of d] show ?thesis
    by (simp add: stored_stream_def be32_def compressBound_def)
qed

lemma stored_no_room: "zlib_no_room zlib_stored"
  by (simp add: zlib_no_room_def zlib_stored_def)

lemma stored_deflate_bound: "zlib_deflate_bound zlib_stored"
  unfolding zlib_deflate_bound_def
proof (intro allI impI)
  fix level :: int and input :: bytes and room :: nat
  assume "deflateInit zlib_stored level = Z_OK \<and> compressBound (length input) \<le> room"
  with length_stored_stream [of input]
  have "length (stored_stream input) \<le> room" and "0 < room"
    by (simp_all add: compressBound_def)
  then show "fst (deflate zlib_stored level input room) = Z_STREAM_END"
    by (simp add: zlib_stored_def)
qed

lemma demo_chunker_init: "Chunker_init zlib_stored Chunker_new None None = Inr demo_chunker"
  by (simp add: Chunker_init_def Chunker_new_def MAX_CHUNK_SIZE_def zlib_stored_def demo_chunker_def)

lemma Chunker_init_wraps_chunk_size:
  "Chunker_init zlib_stored Chunker_new (Some (2 ^ 64 + 5)) None
     = Inr (Chunker_new\<lparr>chunk_size := 5, zstream_initialized := 1\<rparr>)"
  by (simp add: Chunker_init_def Chunker_new_def MAX_CHUNK_SIZE_def zlib_stored_def parse_k_def)

lemma Chunker_init_level_overflow:
  "Chunker_init zlib_stored Chunker_new None (Some (2 ^ 31))
     = Inl (OverflowError ''signed integer is greater than maximum'')"
  by (simp add: Chunker_init_def parse_i_def)

lemma demo_chunker_level: "compression_level demo_chunker = 6"
  by (simp add: demo_chunker_def Chunker_new_def)

lemma stored_stream_A: "stored_stream [65] = [120, 1, 1, 1, 0, 254, 255, 65, 0, 66, 0, 66]"
  by (simp add: stored_stream_def adler32_def be32_def stored_blocks.simps stored_header_def)

section \<open>Chunker.chunk\<close>

text \<open>
  Claim C7. A payload longer than \<^verbatim>\<open>MAX_CHUNK_SIZE\<close> is refused with
  \<^verbatim>\<open>ValueError("Data too large for chunking")\<close>, the code's form of \<^verbatim>\<open>PayloadTooLarge\<close>. The
  equation holds for every allocator and every zlib, also for an allocator that always
  fails, so the refusal comes before any allocation or compression. A payload of exactly
  \<^verbatim>\<open>MAX_CHUNK_SIZE\<close> bytes passes the check and is chunked: provided the 200 MiB buffer can
  be allocated, \<^verbatim>\<open>deflateInit\<close> accepts the configured level and zlib keeps
  \<open>zlib_deflate_bound\<close>, the call returns the dictionary with the complete compressed
  stream, since \<^verbatim>\<open>compressBound(MAX_CHUNK_SIZE)\<close> is below twice \<^verbatim>\<open>MAX_CHUNK_SIZE\<close>.
\<close>

theorem chunk_size_ceiling:
  "(MAX_CHUNK_SIZE < length data \<longrightarrow>
      Chunker_chunk malloc Z self data = Inl (ValueError ''Data too large for chunking''))
   \<and> (length data = MAX_CHUNK_SIZE \<and> malloc (2 * MAX_CHUNK_SIZE)
        \<and> deflateInit Z (compression_level self) = Z_OK \<and> zlib_deflate_bound Z \<longrightarrow>
      Chunker_chunk malloc Z self data =
        Inr [''data'' \<mapsto> PyBytes (snd (deflate Z (compression_level self) data (2 * MAX_CHUNK_SIZE))),
             ''algorithm'' \<mapsto> PyUnicode ''zlib'',
             ''checksum'' \<mapsto> PyUnicode ''sha256_hash_here''])"
proof (intro conjI impI)
  assume "MAX_CHUNK_SIZE < length data"
  then show "Chunker_chunk malloc Z self data = Inl (ValueError ''Data too large for chunking'')"
    by (simp add: Chunker_chunk_def)
next
  assume a: "length data = MAX_CHUNK_SIZE \<and> malloc (2 * MAX_CHUNK_SIZE)
        \<and> deflateInit Z (compression_level self) = Z_OK \<and> zlib_deflate_bound Z"
  have "compressBound MAX_CHUNK_SIZE \<le> 2 * MAX_CHUNK_SIZE"
    by (simp add: compressBound_def MAX_CHUNK_SIZE_def)
  with a have fin: "fst (deflate Z (compression_level self) data (2 * MAX_CHUNK_SIZE)) = Z_STREAM_END"
    unfolding zlib_deflate_bound_def by metis
  have sz: "size_t (length data * 2) = 2 * MAX_CHUNK_SIZE" "uInt (2 * MAX_CHUNK_SIZE) = 2 * MAX_CHUNK_SIZE"
    "uInt (length data) = length data"
    using a by (simp_all add: size_t_def uInt_def MAX_CHUNK_SIZE_def)
  obtain r out where d: "deflate Z (compression_level self) data (2 * MAX_CHUNK_SIZE) = (r, out)"
    by (cases "deflate Z (compression_level self) data (2 * MAX_CHUNK_SIZE)")
  with fin have r: "r = Z_STREAM_END" by simp
  from a sz d r show "Chunker_chunk malloc Z self data =
        Inr [''data'' \<mapsto> PyBytes (snd (deflate Z (compression_level self) data (2 * MAX_CHUNK_SIZE))),
             ''algorithm'' \<mapsto> PyUnicode ''zlib'',
             ''checksum'' \<mapsto> PyUnicode ''sha256_hash_here'']"
    by (simp add: Chunker_chunk_def compress_data_def PyBytes_FromStringAndSize_def)
qed

theorem chunk_size_ceiling_witness:
  "MAX_CHUNK_SIZE < length (replicate (MAX_CHUNK_SIZE + 1) (0 :: byte))
   \<and> Chunker_chunk (\<lambda>n. False) zlib_stored demo_chunker (replicate (MAX_CHUNK_SIZE + 1) 0)
       = Inl (ValueError ''Data too large for chunking'')
   \<and> length (replicate MAX_CHUNK_SIZE (0 :: byte)) = MAX_CHUNK_SIZE
   \<and> deflateInit zlib_stored (compression_level demo_chunker) = Z_OK
   \<and> zlib_deflate_bound zlib_stored
   \<and> (\<exists>d. Chunker_chunk (\<lambda>n. True) zlib_stored demo_chunker (replicate MAX_CHUNK_SIZE 0) = Inr d)"
proof -
  have big: "MAX_CHUNK_SIZE < length (replicate (MAX_CHUNK_SIZE + 1) (0 :: byte))"
    by simp
  have max: "length (replicate MAX_CHUNK_SIZE (0 :: byte)) = MAX_CHUNK_SIZE"
    by simp
  have init: "deflateInit zlib_stored (compression_level demo_chunker) = Z_OK"
    by (simp add: zlib_stored_def demo_chunker_level)
  from chunk_size_ceiling [of "replicate (MAX_CHUNK_SIZE + 1) 0" "\<lambda>n. False" zlib_stored demo_chunker,
      THEN conjunct1] big
  have r1: "Chunker_chunk (\<lambda>n. False) zlib_stored demo_chunker (replicate (MAX_CHUNK_SIZE + 1) 0)
       = Inl (ValueError ''Data too large for chunking'')"
    by blast
  from chunk_size_ceiling [of "replicate MAX_CHUNK_SIZE 0" "\<lambda>n. True" zlib_stored demo_chunker,
      THEN conjunct2] max init stored_deflate_bound
  have r2: "\<exists>d. Chunker_chunk (\<lambda>n. True) zlib_stored demo_chunker (replicate MAX_CHUNK_SIZE 0) = Inr d"
    by blast
  from big r1 max init stored_deflate_bound r2 show ?thesis by blast
qed

text \<open>
  Claim C1 (where the code fails it). The claim asks that every payload of length 0 to
  \<^verbatim>\<open>MAX_CHUNK_SIZE\<close> round-trips, the empty one included. \<^verbatim>\<open>Chunker.chunk\<close> gives
  \<^verbatim>\<open>deflate\<close> a buffer of twice the payload length. For the empty payload that is no room
  at all: with any zlib that keeps \<open>zlib_no_room\<close> the call raises
  \<^verbatim>\<open>RuntimeError("Chunking failed")\<close> (or \<^verbatim>\<open>MemoryError\<close> when \<^verbatim>\<open>malloc(0)\<close> returns \<^verbatim>\<open>NULL\<close>).
  For a short payload the buffer is too small for the stream; \<^verbatim>\<open>deflate\<close> then returns
  \<^verbatim>\<open>Z_OK\<close>, which \<^verbatim>\<open>compress_data\<close> passes on as success, and the call returns the
  unfinished stream as the chunk's data. On the stand-in, the payload \<^verbatim>\<open>b"A"\<close> is chunked to
  the two header bytes, which \<^verbatim>\<open>Chunker.decompress\<close> then rejects.
\<close>

theorem small_payloads_not_chunked:
  "(zlib_no_room Z \<longrightarrow>
      Chunker_chunk malloc Z self [] =
        (if malloc 0 then Inl (RuntimeError ''Chunking failed'')
         else Inl (MemoryError ''Failed to allocate memory'')))
   \<and> (length data \<le> MAX_CHUNK_SIZE \<and> malloc (length data * 2)
        \<and> deflateInit Z (compression_level self) = Z_OK
        \<and> deflate Z (compression_level self) data (length data * 2) = (Z_OK, out) \<longrightarrow>
      Chunker_chunk malloc Z self data =
        Inr [''data'' \<mapsto> PyBytes out, ''algorithm'' \<mapsto> PyUnicode ''zlib'',
             ''checksum'' \<mapsto> PyUnicode ''sha256_hash_here''])"
proof (intro conjI impI)
  assume "zlib_no_room Z"
  then have "fst (deflate Z (compression_level self) [] 0) = Z_BUF_ERROR"
    by (simp add: zlib_no_room_def)
  then show "Chunker_chunk malloc Z self [] =
        (if malloc 0 then Inl (RuntimeError ''Chunking failed'')
         else Inl (MemoryError ''Failed to allocate memory''))"
    by (auto simp: Chunker_chunk_def compress_data_def size_t_def uInt_def MAX_CHUNK_SIZE_def
        Let_def split: prod.splits)
next
  assume a: "length data \<le> MAX_CHUNK_SIZE \<and> malloc (length data * 2)
        \<and> deflateInit Z (compression_level self) = Z_OK
        \<and> deflate Z (compression_level self) data (length data * 2) = (Z_OK, out)"
  then have small: "length data < 2 ^ 32" "length data * 2 < 2 ^ 32" "length data * 2 < 2 ^ 64"
    by (simp_all add: MAX_CHUNK_SIZE_def)
  with a show "Chunker_chunk malloc Z self data =
        Inr [''data'' \<mapsto> PyBytes out, ''algorithm'' \<mapsto> PyUnicode ''zlib'',
             ''checksum'' \<mapsto> PyUnicode ''sha256_hash_here'']"
    by (simp add: Chunker_chunk_def compress_data_def size_t_def uInt_def
        PyBytes_FromStringAndSize_def)
qed

theorem small_payloads_not_chunked_witness:
  "zlib_no_room zlib_stored
   \<and> Chunker_chunk (\<lambda>n. True) zlib_stored demo_chunker [] = Inl (RuntimeError ''Chunking failed'')
   \<and> length [65 :: byte] \<le> MAX_CHUNK_SIZE
   \<and> deflateInit zlib_stored (compression_level demo_chunker) = Z_OK
   \<and> deflate zlib_stored (compression_level demo_chunker) [65] (length [65 :: byte] * 2) = (Z_OK, [120, 1])
   \<and> Chunker_chunk (\<lambda>n. True) zlib_stored demo_chunker [65] =
        Inr [''data'' \<mapsto> PyBytes [120, 1], ''algorithm'' \<mapsto> PyUnicode ''zlib'',
             ''checksum'' \<mapsto> PyUnicode ''sha256_hash_here'']
   \<and> Chunker_decompress (\<lambda>n. True) zlib_stored demo_chunker [120, 1]
        = Inl (RuntimeError ''Decompression failed'')"
proof -
  have len: "length [65 :: byte] \<le> MAX_CHUNK_SIZE"
    by (simp add: MAX_CHUNK_SIZE_def)
  have init: "deflateInit zlib_stored (compression_level demo_chunker) = Z_OK"
    by (simp add: zlib_stored_def demo_chunker_level)
  have defl: "deflate zlib_stored (compression_level demo_chunker) [65] (length [65 :: byte] * 2)
                = (Z_OK, [120, 1])"
    by (simp add: zlib_stored_def stored_stream_A)
  note inst0 = small_payloads_not_chunked
    [of zlib_stored "\<lambda>n. True" demo_chunker "[65]" "[120, 1]", THEN conjunct1]
  note inst1 = small_payloads_not_chunked
    [of zlib_stored "\<lambda>n. True" demo_chunker "[65]" "[120, 1]", THEN conjunct2]
  from inst0 stored_no_room
  have e: "Chunker_chunk (\<lambda>n. True) zlib_stored demo_chunker [] = Inl (RuntimeError ''Chunking failed'')"
    by simp
  from inst1 len init defl
  have a: "Chunker_chunk (\<lambda>n. True) zlib_stored demo_chunker [65] =
        Inr [''data'' \<mapsto> PyBytes [120, 1], ''algorithm'' \<mapsto> PyUnicode ''zlib'',
             ''checksum'' \<mapsto> PyUnicode ''sha256_hash_here'']"
    by simp
  have d: "Chunker_decompress (\<lambda>n. True) zlib_stored demo_chunker [120, 1]
        = Inl (RuntimeError ''Decompression failed'')"
    by (simp add: Chunker_decompress_def decompress_data_def zlib_stored_def stored_unstream_def
        stored_unblocks.simps size_t_def uInt_def)
  from stored_no_room e len init defl a d show ?thesis by simp
qed

text \<open>
  Claim C4 (what the code does instead). The claim asks for a digest computed over the
  sealed bytes and verified first by decode. Every dictionary that \<^verbatim>\<open>Chunker.chunk\<close> returns
  has the string \<^verbatim>\<open>"sha256_hash_here"\<close> under \<^verbatim>\<open>"checksum"\<close>, whatever the payload (the source
  marks the line \<^verbatim>\<open>TODO: Implement\<close>), and has no other keys than \<^verbatim>\<open>"data"\<close>,
  \<^verbatim>\<open>"algorithm"\<close> and \<^verbatim>\<open>"checksum"\<close>. \<^verbatim>\<open>Chunker.decompress\<close> takes the data only, so it has
  no digest to verify, and \<^verbatim>\<open>calculate_checksum\<close> is called by neither module.
\<close>

theorem checksum_is_placeholder:
  "Chunker_chunk malloc Z self data = Inr d \<Longrightarrow>
     d ''checksum'' = Some (PyUnicode ''sha256_hash_here'')
     \<and> dom d = {''data'', ''algorithm'', ''checksum''}"
  by (auto simp: Chunker_chunk_def Let_def split: if_splits prod.splits)

theorem checksum_is_placeholder_witness:
  "Chunker_chunk (\<lambda>n. True) zlib_stored demo_chunker demo_payload
     = Inr [''data'' \<mapsto> PyBytes demo_stream, ''algorithm'' \<mapsto> PyUnicode ''zlib'',
            ''checksum'' \<mapsto> PyUnicode ''sha256_hash_here'']
   \<and> [''data'' \<mapsto> PyBytes demo_stream, ''algorithm'' \<mapsto> PyUnicode ''zlib'',
        ''checksum'' \<mapsto> PyUnicode ''sha256_hash_here''] ''checksum''
       = Some (PyUnicode ''sha256_hash_here'')"
  using checksum_is_placeholder [OF chunk_demo] chunk_demo by simp

section \<open>Chunker.decompress\<close>

text \<open>
  Claim C6 (as stated, refuted). The claim asks that the output buffer have exactly the
  declared original length and never a multiple of the compressed length. The chunk of a
  16-byte payload is a 27-byte stream. With an allocator that grants a request of 16 bytes
  and nothing else \<^verbatim>\<open>Chunker.decompress\<close> raises \<^verbatim>\<open>MemoryError\<close>; with one that grants a
  request of \<open>4 * 27\<close> bytes and nothing else it returns the payload. So the buffer it asks
  for is four times the compressed length.
\<close>

theorem decompress_buffer_not_declared_length:
  "length demo_payload = 16 \<and> length demo_stream = 27
   \<and> Chunker_chunk (\<lambda>n. True) zlib_stored demo_chunker demo_payload
       = Inr [''data'' \<mapsto> PyBytes demo_stream, ''algorithm'' \<mapsto> PyUnicode ''zlib'',
              ''checksum'' \<mapsto> PyUnicode ''sha256_hash_here'']
   \<and> Chunker_decompress (\<lambda>n. n = 16) zlib_stored demo_chunker demo_stream
       = Inl (MemoryError ''Failed to allocate memory'')
   \<and> Chunker_decompress (\<lambda>n. n = 4 * 27) zlib_stored demo_chunker demo_stream = Inr demo_payload"
proof -
  have "length demo_payload = 16" "length demo_stream = 27"
    by (simp_all add: demo_payload_def demo_stream_def)
  with chunk_demo decompress_demo show ?thesis by simp
qed

text \<open>
  Claim C6 (amended). For compressed data below 1 GiB (so that four times its length fits
  \<^verbatim>\<open>uInt\<close>), \<^verbatim>\<open>Chunker.decompress\<close> asks \<^verbatim>\<open>malloc\<close> for four times the compressed length; no
  declared original length exists. If the allocation fails it raises \<^verbatim>\<open>MemoryError\<close>. If
  \<^verbatim>\<open>inflate\<close> reaches the end of the stream within that room, it returns exactly the bytes
  \<^verbatim>\<open>inflate\<close> wrote. If \<^verbatim>\<open>inflateInit\<close> fails or \<^verbatim>\<open>inflate\<close> returns an error code, it raises
  \<^verbatim>\<open>RuntimeError("Decompression failed")\<close> and returns nothing.
\<close>

theorem decompress_buffer_is_four_times_input:
  "length data * 4 < 2 ^ 32 \<Longrightarrow>
     (\<not> malloc (length data * 4) \<longrightarrow>
        Chunker_decompress malloc Z self data = Inl (MemoryError ''Failed to allocate memory''))
     \<and> (malloc (length data * 4) \<and> inflateInit Z = Z_OK
          \<and> inflate Z data (length data * 4) = (Z_STREAM_END, out) \<longrightarrow>
        Chunker_decompress malloc Z self data = Inr out)
     \<and> (malloc (length data * 4)
          \<and> (inflateInit Z \<noteq> Z_OK
              \<or> fst (inflate Z data (length data * 4)) \<notin> {Z_OK, Z_STREAM_END}) \<longrightarrow>
        Chunker_decompress malloc Z self data = Inl (RuntimeError ''Decompression failed''))"
proof -
  assume "length data * 4 < 2 ^ 32"
  then have sz: "size_t (length data * 4) = length data * 4" "uInt (length data * 4) = length data * 4"
    "uInt (length data) = length data"
    by (simp_all add: size_t_def uInt_def)
  show ?thesis
    by (auto simp: Chunker_decompress_def decompress_data_def sz Let_def
        PyBytes_FromStringAndSize_def split: prod.splits)
qed

theorem decompress_buffer_is_four_times_input_witness:
  "length demo_stream * 4 < 2 ^ 32
   \<and> Chunker_decompress (\<lambda>n. n = 16) zlib_stored demo_chunker demo_stream
       = Inl (MemoryError ''Failed to allocate memory'')
   \<and> inflateInit zlib_stored = Z_OK
   \<and> inflate zlib_stored demo_stream (length demo_stream * 4) = (Z_STREAM_END, demo_payload)
   \<and> Chunker_decompress (\<lambda>n. n = 108) zlib_stored demo_chunker demo_stream = Inr demo_payload
   \<and> fst (inflate zlib_stored (take 26 demo_stream) (length (take 26 demo_stream) * 4))
        \<notin> {Z_OK, Z_STREAM_END}
   \<and> Chunker_decompress (\<lambda>n. True) zlib_stored demo_chunker (take 26 demo_stream)
       = Inl (RuntimeError ''Decompression failed'')"
proof -
  have len: "length demo_stream = 27" "length demo_payload = 16"
    by (simp_all add: demo_stream_def demo_payload_def)
  have small: "length demo_stream * 4 < 2 ^ 32" "length (take 26 demo_stream) * 4 < 2 ^ 32"
    by (simp_all add: len)
  have init: "inflateInit zlib_stored = Z_OK"
    by (simp add: zlib_stored_def)
  have ok: "inflate zlib_stored demo_stream (length demo_stream * 4) = (Z_STREAM_END, demo_payload)"
    by (simp add: zlib_stored_def stored_unstream_demo len)
  have "stored_unstream (take 26 demo_stream) = None"
    by (simp add: demo_stream_def stored_unstream_def stored_unblocks.simps
        adler32_def be32_def)
  then have bad: "fst (inflate zlib_stored (take 26 demo_stream) (length (take 26 demo_stream) * 4))
        \<notin> {Z_OK, Z_STREAM_END}"
    by (simp add: zlib_stored_def)
  note a = decompress_buffer_is_four_times_input
    [OF small(1), of "\<lambda>n. n = 16" zlib_stored demo_chunker demo_payload, THEN conjunct1]
  note b = decompress_buffer_is_four_times_input
    [OF small(1), of "\<lambda>n. n = 108" zlib_stored demo_chunker demo_payload, THEN conjunct2, THEN conjunct1]
  note c = decompress_buffer_is_four_times_input
    [OF small(2), of "\<lambda>n. True" zlib_stored demo_chunker demo_payload, THEN conjunct2, THEN conjunct2]
  from a have ra: "Chunker_decompress (\<lambda>n. n = 16) zlib_stored demo_chunker demo_stream
       = Inl (MemoryError ''Failed to allocate memory'')"
    by (simp add: len)
  from b init ok have rb: "Chunker_decompress (\<lambda>n. n = 108) zlib_stored demo_chunker demo_stream
       = Inr demo_payload"
    by (simp add: len)
  from c bad have rc: "Chunker_decompress (\<lambda>n. True) zlib_stored demo_chunker (take 26 demo_stream)
       = Inl (RuntimeError ''Decompression failed'')"
    by blast
  from small(1) ra init ok rb bad rc show ?thesis by blast
qed

section \<open>Encryptor.sign and Encryptor.verify\<close>

text \<open>
  Claim C5 (what the code does instead). The claim asks for \<^verbatim>\<open>sign\<close> and \<^verbatim>\<open>verify\<close> over a
  key pair that the caller supplies and keeps. \<^verbatim>\<open>Encryptor.sign\<close> takes the data only and signs
  with the secret half of a pair generated inside the call; the source notes that "in real
  implementation, this would be stored". Its result does not depend on the public half,
  which is dropped when the call returns. \<^verbatim>\<open>Encryptor.verify\<close> takes the data and the
  signature only and calls \<^verbatim>\<open>crypto_sign_verify_detached\<close> with \<^verbatim>\<open>NULL\<close> for the public key
  (the source: "In real implementation, use actual public key"): what it returns is what
  libsodium makes of a missing key, whichever pair signed, and a signature of any length
  goes to libsodium unchecked, so a truncated one is not told apart by an error of its own.
\<close>

theorem sign_and_verify_hold_no_key:
  "Encryptor_sign malloc S self (pk1, sk) data = Encryptor_sign malloc S self (pk2, sk) data
   \<and> Encryptor_verify S self data sg =
       (if initialized self = 0 then Inl (RuntimeError ''Encryptor not initialized'')
        else Inr (crypto_sign_verify_detached S sg data None = 0))"
  by (simp add: Encryptor_sign_def Encryptor_verify_def)

end
